theory Spec2Isabelle
  imports Main
begin

section \<open>The header dasTugGameModeBase.h\<close>

text \<open>
  The repository's only source file is an Unreal Engine header:
  \<^verbatim>\<open>
  #include "CoreMinimal.h"
  #include "GameFramework/GameModeBase.h"
  #include "dasTugGameModeBase.generated.h"

  UCLASS()
  class DASTUG_API AdasTugGameModeBase : public AGameModeBase
  {
      GENERATED_BODY()
  };
  \<close>
  The base class \<open>AGameModeBase\<close> belongs to the engine and is not part of the repository.
  Its state is therefore a type parameter \<open>'b\<close>, its errors and results are type
  parameters \<open>'e\<close> and \<open>'r\<close>, and its constructor and its table of member functions are
  parameters of every definition that depends on them.  The expansion of
  \<open>GENERATED_BODY()\<close> is produced by the engine's header tool into
  \<open>dasTugGameModeBase.generated.h\<close>, which is not among the sources either: the macro is
  recorded as an item of the class body and contributes no member written in this file.
\<close>

subsection \<open>Declarations as data\<close>

datatype access = Public | Protected | Private

text \<open>
  A member function runs on the state of the object it is called on. It returns what
  the call produced (an error \<open>Inl e\<close> or a result \<open>Inr r\<close>) together with the state
  the object is left in.
\<close>

type_synonym ('s, 'e, 'r) member_fun = "'s \<Rightarrow> ('e + 'r) \<times> 's"

text \<open>
  What a class body can hold: a data member, a member function with its body, a
  constructor with its body (run on the object after the base part is constructed), or
  the invocation of a macro.
\<close>

datatype ('s, 'e, 'r) member =
    Field string
  | Method string "('s, 'e, 'r) member_fun"
  | Ctor "'s \<Rightarrow> 's"
  | Macro string

record ('s, 'e, 'r) class_decl =
  markers :: "string list"
  api :: string
  cname :: string
  bases :: "(access \<times> string) list"
  body :: "('s, 'e, 'r) member list"

record ('s, 'e, 'r) header =
  included :: "string list"
  classes :: "('s, 'e, 'r) class_decl list"

fun declared_fields :: "('s, 'e, 'r) member list \<Rightarrow> string list" where
  "declared_fields [] = []"
| "declared_fields (Field n # ms) = n # declared_fields ms"
| "declared_fields (_ # ms) = declared_fields ms"

fun declared_methods :: "('s, 'e, 'r) member list \<Rightarrow> (string \<times> ('s, 'e, 'r) member_fun) list" where
  "declared_methods [] = []"
| "declared_methods (Method n f # ms) = (n, f) # declared_methods ms"
| "declared_methods (_ # ms) = declared_methods ms"

fun declared_ctors :: "('s, 'e, 'r) member list \<Rightarrow> ('s \<Rightarrow> 's) list" where
  "declared_ctors [] = []"
| "declared_ctors (Ctor c # ms) = c # declared_ctors ms"
| "declared_ctors (_ # ms) = declared_ctors ms"

subsection \<open>The class AdasTugGameModeBase\<close>

text \<open>
  An object of the class consists of its base subobject and of the data members the
  class body declares. The body declares none, so the object is its base subobject.
  \<open>Super\<close> is the engine's name for the base class of a reflected class.
\<close>

datatype 'b AdasTugGameModeBase = AdasTugGameModeBase (Super: 'b)

definition AdasTugGameModeBase_decl :: "('b AdasTugGameModeBase, 'e, 'r) class_decl" where
  "AdasTugGameModeBase_decl =
     \<lparr> markers = [''UCLASS''],
       api = ''DASTUG_API'',
       cname = ''AdasTugGameModeBase'',
       bases = [(Public, ''AGameModeBase'')],
       body = [Macro ''GENERATED_BODY''] \<rparr>"

definition dasTugGameModeBase_h :: "('b AdasTugGameModeBase, 'e, 'r) header" where
  "dasTugGameModeBase_h =
     \<lparr> included = [''CoreMinimal.h'', ''GameFramework/GameModeBase.h'',
                    ''dasTugGameModeBase.generated.h''],
       classes = [AdasTugGameModeBase_decl] \<rparr>"

subsection \<open>Member functions: inherited unless overridden\<close>

text \<open>
  A member function of the base called on a derived object runs on the base subobject
  and leaves everything else of the object as it was.
\<close>

definition inherit :: "('b, 'e, 'r) member_fun \<Rightarrow> ('b AdasTugGameModeBase, 'e, 'r) member_fun" where
  "inherit f d = (case f (Super d) of (out, b) \<Rightarrow> (out, AdasTugGameModeBase b))"

text \<open>
  The member functions of the class, by name: those of the base, inherited, overridden
  by the ones the class body declares.
\<close>

definition AdasTugGameModeBase_methods ::
  "(string \<rightharpoonup> ('b, 'e, 'r) member_fun) \<Rightarrow> (string \<rightharpoonup> ('b AdasTugGameModeBase, 'e, 'r) member_fun)" where
  "AdasTugGameModeBase_methods base =
     (map_option inherit \<circ> base) ++ map_of (declared_methods (body AdasTugGameModeBase_decl))"

text \<open>Calling a member function by name; \<open>None\<close> when the class has no such member.\<close>

definition call :: "(string \<rightharpoonup> ('s, 'e, 'r) member_fun) \<Rightarrow> string \<Rightarrow> 's \<Rightarrow> (('e + 'r) \<times> 's) option" where
  "call tbl m s = (case tbl m of None \<Rightarrow> None | Some f \<Rightarrow> Some (f s))"

subsection \<open>Construction\<close>

text \<open>
  Constructing an object constructs the base subobject first and then runs the
  constructor the class body declares; a class that declares none gets the implicit
  one, which does nothing more.
\<close>

definition AdasTugGameModeBase_ctor :: "('i \<Rightarrow> 'b) \<Rightarrow> 'i \<Rightarrow> 'b AdasTugGameModeBase" where
  "AdasTugGameModeBase_ctor base_ctor init =
     (case declared_ctors (body (AdasTugGameModeBase_decl :: ('b AdasTugGameModeBase, unit, unit) class_decl)) of
        [] \<Rightarrow> AdasTugGameModeBase (base_ctor init)
      | c # _ \<Rightarrow> c (AdasTugGameModeBase (base_ctor init)))"

text \<open>
  A public base makes every object of the class usable as an object of that base: the
  conversion yields the base subobject.
\<close>

definition as_base :: "string \<Rightarrow> 'b AdasTugGameModeBase \<Rightarrow> 'b option" where
  "as_base target d =
     (if (Public, target) \<in> set (bases (AdasTugGameModeBase_decl :: ('b AdasTugGameModeBase, unit, unit) class_decl))
      then Some (Super d) else None)"

subsection \<open>Invariants\<close>

text \<open>
  A state predicate is an invariant of a type, given by its constructor and its table
  of member functions, when construction establishes it and every member function
  called in a state that satisfies it leaves a state that satisfies it.
\<close>

definition invariant ::
  "('s \<Rightarrow> bool) \<Rightarrow> ('i \<Rightarrow> 's) \<Rightarrow> (string \<rightharpoonup> ('s, 'e, 'r) member_fun) \<Rightarrow> bool" where
  "invariant I ctor tbl =
     ((\<forall>init. I (ctor init)) \<and> (\<forall>m f s. tbl m = Some f \<longrightarrow> I s \<longrightarrow> I (snd (f s))))"

section \<open>Basic facts\<close>

lemma body_declares_no_method:
  "declared_methods (body AdasTugGameModeBase_decl) = []"
  by (simp add: AdasTugGameModeBase_decl_def)

lemma body_declares_no_ctor:
  "declared_ctors (body AdasTugGameModeBase_decl) = []"
  by (simp add: AdasTugGameModeBase_decl_def)

lemma methods_are_inherited:
  "AdasTugGameModeBase_methods base m = map_option inherit (base m)"
  by (simp add: AdasTugGameModeBase_methods_def body_declares_no_method)

lemma ctor_is_base_ctor:
  "AdasTugGameModeBase_ctor base_ctor init = AdasTugGameModeBase (base_ctor init)"
  by (simp add: AdasTugGameModeBase_ctor_def body_declares_no_ctor)

lemma snd_inherit: "snd (inherit f d) = AdasTugGameModeBase (snd (f (Super d)))"
  by (simp add: inherit_def split: prod.split)

lemma fst_inherit: "fst (inherit f d) = fst (f (Super d))"
  by (simp add: inherit_def split: prod.split)

lemma call_inherited:
  "call (AdasTugGameModeBase_methods base) m d =
     map_option (map_prod id AdasTugGameModeBase) (call base m (Super d))"
  by (cases "base m")
     (simp_all add: call_def methods_are_inherited inherit_def split: prod.split)

section \<open>The claims\<close>

text \<open>
  Claim C1. The class overrides nothing: its table of member functions is the base's
  table, inherited, and calling any member function on an object of the class does what
  the base's member function does on the base subobject, for whatever table the base
  has.
\<close>

theorem AdasTugGameModeBase_overrides_nothing:
  "AdasTugGameModeBase_methods base = map_option inherit \<circ> base \<and>
   call (AdasTugGameModeBase_methods base) m d =
     map_option (map_prod id AdasTugGameModeBase) (call base m (Super d))"
proof
  show "AdasTugGameModeBase_methods base = map_option inherit \<circ> base"
    by (rule ext) (simp add: methods_are_inherited)
next
  show "call (AdasTugGameModeBase_methods base) m d =
     map_option (map_prod id AdasTugGameModeBase) (call base m (Super d))"
    by (rule call_inherited)
qed

text \<open>
  Claim C3. The header declares exactly one class, \<open>AdasTugGameModeBase\<close>, with the
  single public base \<open>AGameModeBase\<close>, and the body of that class declares no data
  member, no member function and no constructor.
\<close>

theorem header_declares_one_empty_subclass:
  "map cname (classes dasTugGameModeBase_h) = [''AdasTugGameModeBase''] \<and>
   map bases (classes dasTugGameModeBase_h) = [[(Public, ''AGameModeBase'')]] \<and>
   concat (map (declared_fields \<circ> body) (classes dasTugGameModeBase_h)) = [] \<and>
   concat (map (declared_methods \<circ> body) (classes dasTugGameModeBase_h)) = [] \<and>
   concat (map (declared_ctors \<circ> body) (classes dasTugGameModeBase_h)) = []"
  by (simp add: dasTugGameModeBase_h_def AdasTugGameModeBase_decl_def)

text \<open>
  Claim C8. The state of an object of the class is its base state and nothing more:
  taking the base part and wrapping it again is the identity in both directions, the
  projection to the base part is a bijection, and two objects are equal exactly when
  their base parts are.
\<close>

theorem AdasTugGameModeBase_state_is_base_state:
  "AdasTugGameModeBase (Super d) = d \<and>
   Super (AdasTugGameModeBase b) = b \<and>
   bij (Super :: 'b AdasTugGameModeBase \<Rightarrow> 'b) \<and>
   (Super d1 = Super d2) = (d1 = d2) \<and>
   declared_fields (body AdasTugGameModeBase_decl) = []"
proof -
  have "bij (Super :: 'b AdasTugGameModeBase \<Rightarrow> 'b)"
    by (rule bij_betw_byWitness [where f' = AdasTugGameModeBase]) auto
  moreover have "(Super d1 = Super d2) = (d1 = d2)"
    by (cases d1, cases d2) simp
  moreover have "declared_fields (body AdasTugGameModeBase_decl) = []"
    by (simp add: AdasTugGameModeBase_decl_def)
  ultimately show ?thesis by simp
qed

text \<open>
  Claim C9. Constructing an object of the class constructs the base part with the
  base's constructor and does nothing else: the object is the wrapped result of the
  base's constructor, so whatever is read from its base part (any \<open>field\<close>) is what the
  base's constructor put there.
\<close>

theorem default_construction_is_base_construction:
  "AdasTugGameModeBase_ctor base_ctor init = AdasTugGameModeBase (base_ctor init) \<and>
   Super (AdasTugGameModeBase_ctor base_ctor init) = base_ctor init \<and>
   field (Super (AdasTugGameModeBase_ctor base_ctor init)) = field (base_ctor init)"
  by (simp add: ctor_is_base_ctor)

text \<open>
  Claim C2. Every object the constructor yields is usable as an \<open>AGameModeBase\<close> (the
  conversion to the public base succeeds and gives what the base's constructor built),
  satisfies every contract the base's constructor establishes, and has no behaviour
  beyond the base's: it answers exactly the member functions the base answers, each
  with the base's behaviour on the base-constructed state.
\<close>

theorem instance_satisfies_base_contract:
  assumes "contract (base_ctor init)"
  shows "as_base ''AGameModeBase'' (AdasTugGameModeBase_ctor base_ctor init) = Some (base_ctor init) \<and>
         contract (Super (AdasTugGameModeBase_ctor base_ctor init)) \<and>
         dom (AdasTugGameModeBase_methods base) = dom base \<and>
         call (AdasTugGameModeBase_methods base) m (AdasTugGameModeBase_ctor base_ctor init) =
           map_option (map_prod id AdasTugGameModeBase) (call base m (base_ctor init))"
proof -
  have "as_base ''AGameModeBase'' (AdasTugGameModeBase_ctor base_ctor init) = Some (base_ctor init)"
    by (simp add: as_base_def AdasTugGameModeBase_decl_def ctor_is_base_ctor)
  moreover have "contract (Super (AdasTugGameModeBase_ctor base_ctor init))"
    using assms by (simp add: ctor_is_base_ctor)
  moreover have "dom (AdasTugGameModeBase_methods base) = dom base"
    by (auto simp add: dom_def methods_are_inherited)
  moreover have "call (AdasTugGameModeBase_methods base) m (AdasTugGameModeBase_ctor base_ctor init) =
           map_option (map_prod id AdasTugGameModeBase) (call base m (base_ctor init))"
    by (simp add: call_inherited ctor_is_base_ctor)
  ultimately show ?thesis by simp
qed

theorem instance_satisfies_base_contract_witness:
  "as_base ''AGameModeBase'' (AdasTugGameModeBase_ctor (\<lambda>n::nat. Suc n) 0) = Some (Suc 0) \<and>
   0 < Super (AdasTugGameModeBase_ctor (\<lambda>n::nat. Suc n) 0) \<and>
   dom (AdasTugGameModeBase_methods [''StartPlay'' \<mapsto> (\<lambda>b::nat. (Inr () :: string + unit, b + 1))])
     = {''StartPlay''} \<and>
   call (AdasTugGameModeBase_methods [''StartPlay'' \<mapsto> (\<lambda>b::nat. (Inr () :: string + unit, b + 1))])
     ''StartPlay'' (AdasTugGameModeBase_ctor (\<lambda>n::nat. Suc n) 0)
     = Some (Inr (), AdasTugGameModeBase 2)"
proof -
  have h: "(\<lambda>b::nat. 0 < b) ((\<lambda>n::nat. Suc n) 0)" by simp
  show ?thesis
    using instance_satisfies_base_contract
      [of "\<lambda>b::nat. 0 < b" "\<lambda>n::nat. Suc n" 0
          "[''StartPlay'' \<mapsto> (\<lambda>b::nat. (Inr () :: string + unit, b + 1))]" "''StartPlay''", OF h]
    by (simp add: call_def)
qed

text \<open>
  Claim C4. The invariants of the class are those of the base: a predicate on base
  states is an invariant of the base exactly when, read on the base part, it is an
  invariant of the class (established by its constructor, preserved by each of its
  member functions); and every invariant of the class is such a predicate on the base
  part, an invariant of the base.
\<close>

theorem invariants_are_the_base_invariants:
  "(invariant I base_ctor base \<longrightarrow>
      invariant (I \<circ> Super) (AdasTugGameModeBase_ctor base_ctor) (AdasTugGameModeBase_methods base)) \<and>
   (invariant J (AdasTugGameModeBase_ctor base_ctor) (AdasTugGameModeBase_methods base) \<longrightarrow>
      invariant (J \<circ> AdasTugGameModeBase) base_ctor base \<and>
      J = (J \<circ> AdasTugGameModeBase) \<circ> Super)"
proof (intro conjI impI)
  assume inv: "invariant I base_ctor base"
  show "invariant (I \<circ> Super) (AdasTugGameModeBase_ctor base_ctor) (AdasTugGameModeBase_methods base)"
    unfolding invariant_def
  proof (intro conjI allI impI)
    fix init
    show "(I \<circ> Super) (AdasTugGameModeBase_ctor base_ctor init)"
      using inv by (simp add: invariant_def ctor_is_base_ctor)
  next
    fix m f s
    assume f: "AdasTugGameModeBase_methods base m = Some f" and s: "(I \<circ> Super) s"
    from f obtain g where g: "base m = Some g" and fg: "f = inherit g"
      by (auto simp add: methods_are_inherited)
    from inv g s have "I (snd (g (Super s)))"
      by (simp add: invariant_def)
    then show "(I \<circ> Super) (snd (f s))"
      by (simp add: fg snd_inherit)
  qed
next
  assume inv: "invariant J (AdasTugGameModeBase_ctor base_ctor) (AdasTugGameModeBase_methods base)"
  show "invariant (J \<circ> AdasTugGameModeBase) base_ctor base"
    unfolding invariant_def
  proof (intro conjI allI impI)
    fix init
    show "(J \<circ> AdasTugGameModeBase) (base_ctor init)"
      using inv by (simp add: invariant_def ctor_is_base_ctor)
  next
    fix m g b
    assume g: "base m = Some g" and b: "(J \<circ> AdasTugGameModeBase) b"
    from g have "AdasTugGameModeBase_methods base m = Some (inherit g)"
      by (simp add: methods_are_inherited)
    with inv b have "J (snd (inherit g (AdasTugGameModeBase b)))"
      by (simp add: invariant_def)
    then show "(J \<circ> AdasTugGameModeBase) (snd (g b))"
      by (simp add: snd_inherit)
  qed
next
  show "J = (J \<circ> AdasTugGameModeBase) \<circ> Super"
    by (rule ext) simp
qed

theorem invariants_are_the_base_invariants_witness:
  "invariant ((\<lambda>b::nat. 0 < b) \<circ> Super)
     (AdasTugGameModeBase_ctor (\<lambda>n::nat. Suc n))
     (AdasTugGameModeBase_methods [''StartPlay'' \<mapsto> (\<lambda>b::nat. (Inr () :: string + unit, b + 1))])"
proof -
  have h: "invariant (\<lambda>b::nat. 0 < b) (\<lambda>n::nat. Suc n)
             [''StartPlay'' \<mapsto> (\<lambda>b::nat. (Inr () :: string + unit, b + 1))]"
    by (auto simp add: invariant_def split: if_splits)
  show ?thesis
    using invariants_are_the_base_invariants
      [of "\<lambda>b::nat. 0 < b" "\<lambda>n::nat. Suc n"
          "[''StartPlay'' \<mapsto> (\<lambda>b::nat. (Inr () :: string + unit, b + 1))]"] h
    by blast
qed

text \<open>
  Claim C5. No failure originates in the class: whenever a member function called on
  an object of the class raises an error, the base's member function of that name,
  called on the base part, raises that same error and leaves the same base state.
\<close>

theorem errors_come_from_the_base:
  assumes "call (AdasTugGameModeBase_methods base) m d = Some (Inl e, d')"
  shows "call base m (Super d) = Some (Inl e, Super d')"
proof -
  from assms obtain g where g: "base m = Some g" and r: "inherit g d = (Inl e, d')"
    by (auto simp add: call_def methods_are_inherited split: option.splits)
  from r have "fst (g (Super d)) = Inl e" and "AdasTugGameModeBase (snd (g (Super d))) = d'"
    using fst_inherit [of g d] snd_inherit [of g d] by simp_all
  then have "g (Super d) = (Inl e, Super d')"
    by (auto simp add: prod_eq_iff)
  with g show ?thesis by (simp add: call_def)
qed

theorem errors_come_from_the_base_witness:
  "call [''StartPlay'' \<mapsto> (\<lambda>b::nat. (Inl ''no world'' :: string + unit, b + 1))]
     ''StartPlay'' (Super (AdasTugGameModeBase (0::nat)))
   = Some (Inl ''no world'', Super (AdasTugGameModeBase (1::nat)))"
proof -
  have h: "call (AdasTugGameModeBase_methods
                   [''StartPlay'' \<mapsto> (\<lambda>b::nat. (Inl ''no world'' :: string + unit, b + 1))])
             ''StartPlay'' (AdasTugGameModeBase (0::nat))
           = Some (Inl ''no world'', AdasTugGameModeBase (1::nat))"
    by (simp add: call_def methods_are_inherited inherit_def)
  show ?thesis
    by (rule errors_come_from_the_base [OF h])
qed

end
